theory Spec2Isabelle
  imports Main
begin

section \<open>JavaScript values\<close>

text \<open>
  The controller handles request bodies, records and errors as untyped JavaScript values.
  \<open>JNative\<close> stands for an object of the host that is known by its name only: an Error
  instance (\<open>TypeError\<close>) or the Express response object. Numbers are integers here; the
  bodies come from a JSON parser, which yields no NaN.
\<close>

datatype jsval =
    JUndefined
  | JNull
  | JBool bool
  | JNum int
  | JStr string
  | JNative string
  | JArr "jsval list"
  | JObj "(string \<times> jsval) list"

text \<open>The truth value of \<open>if (v)\<close>: the falsy values are undefined, null, false, 0 and "".\<close>

fun truthy :: "jsval \<Rightarrow> bool" where
  "truthy JUndefined = False"
| "truthy JNull = False"
| "truthy (JBool b) = b"
| "truthy (JNum n) = (n \<noteq> 0)"
| "truthy (JStr s) = (s \<noteq> [])"
| "truthy (JNative n) = True"
| "truthy (JArr xs) = True"
| "truthy (JObj kvs) = True"

text \<open>Reading a property of null or undefined throws a TypeError.\<close>

fun nullish :: "jsval \<Rightarrow> bool" where
  "nullish JUndefined = True"
| "nullish JNull = True"
| "nullish v = False"

definition TypeError :: jsval where
  "TypeError = JNative ''TypeError''"

text \<open>
  \<open>v.k\<close> for a value that is not null or undefined. Only the keys \<open>_id\<close> and \<open>error\<close> are
  read by the code; arrays, strings, numbers and booleans carry neither.
\<close>

fun get_prop :: "jsval \<Rightarrow> string \<Rightarrow> jsval" where
  "get_prop (JObj kvs) k = (case map_of kvs k of Some v \<Rightarrow> v | None \<Rightarrow> JUndefined)"
| "get_prop v k = JUndefined"

text \<open>\<open>Reflect.deleteProperty(o, k)\<close> on an object.\<close>

fun delete_prop :: "jsval \<Rightarrow> string \<Rightarrow> jsval" where
  "delete_prop (JObj kvs) k = JObj (filter (\<lambda>kv. fst kv \<noteq> k) kvs)"
| "delete_prop v k = v"

text \<open>Whether an object has an own property \<open>k\<close>.\<close>

fun has_prop :: "jsval \<Rightarrow> string \<Rightarrow> bool" where
  "has_prop (JObj kvs) k = (map_of kvs k \<noteq> None)"
| "has_prop v k = False"

section \<open>Promises, the response object and the store\<close>

text \<open>
  A settled promise: \<open>Inl reason\<close> is a rejection, \<open>Inr value\<close> a fulfilment. A handler
  runs on the request's context and returns the promise it produces with the new context.
\<close>

type_synonym promise = "jsval + jsval"

definition then_p :: "promise \<times> 's \<Rightarrow> (jsval \<Rightarrow> 's \<Rightarrow> promise \<times> 's) \<Rightarrow> promise \<times> 's" where
  "then_p ps f = (case fst ps of Inl e \<Rightarrow> ps | Inr v \<Rightarrow> f v (snd ps))"

definition catch_p :: "promise \<times> 's \<Rightarrow> (jsval \<Rightarrow> 's \<Rightarrow> promise \<times> 's) \<Rightarrow> promise \<times> 's" where
  "catch_p ps h = (case fst ps of Inl e \<Rightarrow> h e (snd ps) | Inr v \<Rightarrow> ps)"

text \<open>
  What the controller writes on \<open>res\<close>, in the order of the calls:
  \<open>res.status(c).json(v)\<close>, \<open>res.status(c).end()\<close> and \<open>res.status(c).send(v)\<close>.
\<close>

datatype res_call = Json nat jsval | End nat | Send nat jsval

fun status_of :: "res_call \<Rightarrow> nat" where
  "status_of (Json c v) = c"
| "status_of (End c) = c"
| "status_of (Send c v) = c"

fun body_of :: "res_call \<Rightarrow> jsval option" where
  "body_of (Json c v) = Some v"
| "body_of (End c) = None"
| "body_of (Send c v) = Some v"

text \<open>
  The calls the controller makes on its collaborators: the \<open>Session\<close> model, the entities
  it resolves with, and \<open>jsonpatch.apply\<close>.
\<close>

datatype call =
    CFindAll
  | CFind jsval
  | CCreate jsval
  | CUpsert jsval jsval
  | CApply jsval jsval
  | CSave jsval
  | CDestroy jsval

text \<open>The calls that write to the store.\<close>

fun is_write :: "call \<Rightarrow> bool" where
  "is_write (CCreate b) = True"
| "is_write (CUpsert b i) = True"
| "is_write (CSave e) = True"
| "is_write (CDestroy e) = True"
| "is_write c = False"

text \<open>
  The \<open>Session\<close> model is required from \<open>conn/sqldb\<close>, which is not part of the sources at
  hand: its operations are parameters. Each takes the state of the database and returns a
  settled promise with the new state. \<open>Session_find i\<close> is
  \<open>Session.find({where: {_id: i}})\<close>, \<open>Session_upsert b i\<close> is
  \<open>Session.upsert(b, {where: {_id: i}})\<close>; \<open>entity_save\<close> and \<open>entity_destroy\<close> are the
  methods of an entity, given the entity's content.
\<close>

record 'db store =
  Session_findAll :: "'db \<Rightarrow> promise \<times> 'db"
  Session_find :: "jsval \<Rightarrow> 'db \<Rightarrow> promise \<times> 'db"
  Session_create :: "jsval \<Rightarrow> 'db \<Rightarrow> promise \<times> 'db"
  Session_upsert :: "jsval \<Rightarrow> jsval \<Rightarrow> 'db \<Rightarrow> promise \<times> 'db"
  entity_save :: "jsval \<Rightarrow> 'db \<Rightarrow> promise \<times> 'db"
  entity_destroy :: "jsval \<Rightarrow> 'db \<Rightarrow> promise \<times> 'db"

text \<open>
  \<open>jsonpatch.apply(entity, patches, true)\<close> of the library fast-json-patch: \<open>Inl err\<close> when
  it throws, \<open>Inr doc\<close> with the content of the document after the patch otherwise.
\<close>

type_synonym jsonpatch = "jsval \<Rightarrow> jsval \<Rightarrow> jsval + jsval"

text \<open>The context of one request: the database, the calls made so far, the writes on \<open>res\<close>.\<close>

record 'db ctx =
  db :: 'db
  calls :: "call list"
  sent :: "res_call list"

record request =
  params_id :: jsval
  body :: jsval

definition invoke :: "call \<Rightarrow> ('db \<Rightarrow> promise \<times> 'db) \<Rightarrow> 'db ctx \<Rightarrow> promise \<times> 'db ctx" where
  "invoke c f s = (fst (f (db s)), s\<lparr>db := snd (f (db s)), calls := calls s @ [c]\<rparr>)"

definition respond :: "res_call \<Rightarrow> 'db ctx \<Rightarrow> 'db ctx" where
  "respond r s = s\<lparr>sent := sent s @ [r]\<rparr>"

definition res_object :: jsval where
  "res_object = JNative ''res''"

section \<open>The controller (session.controller.js)\<close>

text \<open>\<open>statusCode = statusCode || d\<close>: a missing or zero status code takes the default.\<close>

fun or_default :: "nat option \<Rightarrow> nat \<Rightarrow> nat" where
  "or_default None d = d"
| "or_default (Some c) d = (if c = 0 then d else c)"

definition respondWithResult :: "nat option \<Rightarrow> jsval \<Rightarrow> 'db ctx \<Rightarrow> promise \<times> 'db ctx" where
  "respondWithResult statusCode entity s =
     (if truthy entity
      then (Inr res_object, respond (Json (or_default statusCode 200) entity) s)
      else (Inr JNull, s))"

text \<open>
  \<open>jsonpatch.apply\<close> works on the entity in place, so an entity that is not an object is
  what it was afterwards. \<open>entity.save()\<close> is a method of the model's instances: on
  anything else the call throws a TypeError inside the handler, which rejects the chain.
\<close>

definition patchUpdates ::
  "'db store \<Rightarrow> jsonpatch \<Rightarrow> jsval \<Rightarrow> jsval \<Rightarrow> 'db ctx \<Rightarrow> promise \<times> 'db ctx" where
  "patchUpdates st jp patches entity s =
     (let s1 = s\<lparr>calls := calls s @ [CApply entity patches]\<rparr> in
      case jp entity patches of
        Inl err \<Rightarrow> (Inl err, s1)
      | Inr doc \<Rightarrow>
          (case entity of
             JObj kvs \<Rightarrow> invoke (CSave doc) (entity_save st doc) s1
           | _ \<Rightarrow> (Inl TypeError, s1)))"

definition removeEntity :: "'db store \<Rightarrow> jsval \<Rightarrow> 'db ctx \<Rightarrow> promise \<times> 'db ctx" where
  "removeEntity st entity s =
     (if truthy entity
      then (case entity of
              JObj kvs \<Rightarrow>
                then_p (invoke (CDestroy entity) (entity_destroy st entity) s)
                  (\<lambda>v s'. (Inr JUndefined, respond (End 204) s'))
            | _ \<Rightarrow> (Inl TypeError, s))
      else (Inr JUndefined, s))"

definition handleEntityNotFound :: "jsval \<Rightarrow> 'db ctx \<Rightarrow> promise \<times> 'db ctx" where
  "handleEntityNotFound entity s =
     (if \<not> truthy entity
      then (Inr JNull, respond (End 404) s)
      else (Inr entity, s))"

definition handleError :: "nat option \<Rightarrow> jsval \<Rightarrow> 'db ctx \<Rightarrow> promise \<times> 'db ctx" where
  "handleError statusCode err s =
     (Inr JUndefined, respond (Send (or_default statusCode 500) err) s)"

definition index :: "'db store \<Rightarrow> request \<Rightarrow> 'db ctx \<Rightarrow> promise \<times> 'db ctx" where
  "index st req s =
     catch_p
       (then_p (invoke CFindAll (Session_findAll st) s)
          (respondWithResult None))
       (handleError None)"

text \<open>The source's \<open>show\<close>; the name is a keyword of Isabelle.\<close>

definition show_op :: "'db store \<Rightarrow> request \<Rightarrow> 'db ctx \<Rightarrow> promise \<times> 'db ctx" where
  "show_op st req s =
     catch_p
       (then_p
          (then_p (invoke (CFind (params_id req)) (Session_find st (params_id req)) s)
             handleEntityNotFound)
          (respondWithResult None))
       (handleError None)"

definition create :: "'db store \<Rightarrow> request \<Rightarrow> 'db ctx \<Rightarrow> promise \<times> 'db ctx" where
  "create st req s =
     catch_p
       (then_p (invoke (CCreate (body req)) (Session_create st (body req)) s)
          (respondWithResult (Some 201)))
       (handleError None)"

text \<open>
  \<open>upsert\<close> and \<open>patch\<close> begin with the same statement,
  \<open>if (req.body._id) { Reflect.deleteProperty(req.body, '_id'); }\<close>, which is \<open>strip_id\<close>.
  It reads \<open>req.body._id\<close> before the chain starts: with a body that is null or undefined
  the handler throws (\<open>Inl\<close>) and no promise is made.
\<close>

definition strip_id :: "jsval \<Rightarrow> jsval" where
  "strip_id b = (if truthy (get_prop b ''_id'') then delete_prop b ''_id'' else b)"

definition upsert :: "'db store \<Rightarrow> request \<Rightarrow> 'db ctx \<Rightarrow> jsval + promise \<times> 'db ctx" where
  "upsert st req s =
     (if nullish (body req) then Inl TypeError
      else
        let b = strip_id (body req)
        in Inr (catch_p
                  (then_p (invoke (CUpsert b (params_id req))
                             (Session_upsert st b (params_id req)) s)
                     (respondWithResult None))
                  (handleError None)))"

definition patch ::
  "'db store \<Rightarrow> jsonpatch \<Rightarrow> request \<Rightarrow> 'db ctx \<Rightarrow> jsval + promise \<times> 'db ctx" where
  "patch st jp req s =
     (if nullish (body req) then Inl TypeError
      else
        let b = strip_id (body req)
        in Inr (catch_p
                  (then_p
                     (then_p
                        (then_p (invoke (CFind (params_id req))
                                   (Session_find st (params_id req)) s)
                           handleEntityNotFound)
                        (patchUpdates st jp b))
                     (respondWithResult None))
                  (handleError None)))"

definition destroy :: "'db store \<Rightarrow> request \<Rightarrow> 'db ctx \<Rightarrow> promise \<times> 'db ctx" where
  "destroy st req s =
     catch_p
       (then_p
          (then_p (invoke (CFind (params_id req)) (Session_find st (params_id req)) s)
             handleEntityNotFound)
          (removeEntity st))
       (handleError None)"

section \<open>The API client (ApiService)\<close>

text \<open>
  The requests the service hands to Angular's \<open>HttpClient\<close>: the URL, and the query
  parameters or the serialised body. The transport is a parameter: it answers a request on
  the state of the network with the decoded body (\<open>Inr\<close>) or with an error (\<open>Inl\<close>). An
  observable of \<open>HttpClient\<close> yields one of the two once, so it is a settled promise here.
\<close>

datatype http_request =
    HttpGet string jsval
  | HttpPut string string
  | HttpPost string string
  | HttpDelete string

record 'net client =
  net :: 'net
  requests :: "http_request list"

record 'net ApiService =
  apiUrl :: string
  http :: "http_request \<Rightarrow> 'net \<Rightarrow> promise \<times> 'net"
  JSON_stringify :: "jsval \<Rightarrow> string"

definition http_call :: "'net ApiService \<Rightarrow> http_request \<Rightarrow> 'net client \<Rightarrow> promise \<times> 'net client" where
  "http_call svc r s =
     (fst (http svc r (net s)), s\<lparr>net := snd (http svc r (net s)), requests := requests s @ [r]\<rparr>)"

text \<open>\<open>throwError(error.error)\<close>; reading \<open>.error\<close> of null or undefined throws.\<close>

definition formatErrors :: "jsval \<Rightarrow> promise" where
  "formatErrors error = (if nullish error then Inl TypeError else Inl (get_prop error ''error''))"

text \<open>A parameter with a default: the default stands in for undefined.\<close>

definition defaulted :: "jsval \<Rightarrow> jsval \<Rightarrow> jsval" where
  "defaulted v d = (if v = JUndefined then d else v)"

definition ApiService_get :: "'net ApiService \<Rightarrow> string \<Rightarrow> jsval \<Rightarrow> 'net client \<Rightarrow> promise \<times> 'net client" where
  "ApiService_get svc path params s =
     catch_p (http_call svc (HttpGet (apiUrl svc @ path) (defaulted params (JObj []))) s)
       (\<lambda>e s'. (formatErrors e, s'))"

definition ApiService_put :: "'net ApiService \<Rightarrow> string \<Rightarrow> jsval \<Rightarrow> 'net client \<Rightarrow> promise \<times> 'net client" where
  "ApiService_put svc path b s =
     catch_p
       (http_call svc (HttpPut (apiUrl svc @ path) (JSON_stringify svc (defaulted b (JObj [])))) s)
       (\<lambda>e s'. (formatErrors e, s'))"

definition ApiService_post :: "'net ApiService \<Rightarrow> string \<Rightarrow> jsval \<Rightarrow> 'net client \<Rightarrow> promise \<times> 'net client" where
  "ApiService_post svc path b s =
     catch_p
       (http_call svc (HttpPost (apiUrl svc @ path) (JSON_stringify svc (defaulted b (JObj [])))) s)
       (\<lambda>e s'. (formatErrors e, s'))"

definition ApiService_delete :: "'net ApiService \<Rightarrow> string \<Rightarrow> 'net client \<Rightarrow> promise \<times> 'net client" where
  "ApiService_delete svc path s =
     catch_p (http_call svc (HttpDelete (apiUrl svc @ path)) s)
       (\<lambda>e s'. (formatErrors e, s'))"

section \<open>A store and a patch library to run the controller on\<close>

text \<open>
  Modelled from the spec: the Persistence Store behind \<open>Session\<close> (\<open>conn/sqldb\<close> and the
  model's definition are missing from the sources). The spec's store offers findAll,
  findById, create, upsert by id, save and deleteById, each of which may fail with a
  generic persistence error. A record is its identity \<open>_id\<close> with the caller's fields;
  create assigns an identity no record has; upsert creates the record at the identity or
  replaces it. While \<open>fault\<close> is set every operation fails with it and writes nothing.
\<close>

record mem_db =
  rows :: "jsval list"
  fault :: "jsval option"

fun fields_of :: "jsval \<Rightarrow> (string \<times> jsval) list" where
  "fields_of (JObj kvs) = filter (\<lambda>kv. fst kv \<noteq> ''_id'') kvs"
| "fields_of v = []"

definition mk_record :: "jsval \<Rightarrow> jsval \<Rightarrow> jsval" where
  "mk_record i b = JObj ((''_id'', i) # fields_of b)"

definition row_at :: "jsval \<Rightarrow> jsval \<Rightarrow> bool" where
  "row_at i r = (get_prop r ''_id'' = i)"

fun id_num :: "jsval \<Rightarrow> int" where
  "id_num (JNum n) = n"
| "id_num v = 0"

fun max_id :: "jsval list \<Rightarrow> int" where
  "max_id [] = 0"
| "max_id (r # rs) = max (id_num (get_prop r ''_id'')) (max_id rs)"

definition fresh_id :: "jsval list \<Rightarrow> jsval" where
  "fresh_id rs = JNum (max_id rs + 1)"

definition failing :: "mem_db \<Rightarrow> (mem_db \<Rightarrow> promise \<times> mem_db) \<Rightarrow> promise \<times> mem_db" where
  "failing d f = (case fault d of Some e \<Rightarrow> (Inl e, d) | None \<Rightarrow> f d)"

definition mem_findAll :: "mem_db \<Rightarrow> promise \<times> mem_db" where
  "mem_findAll d = failing d (\<lambda>d. (Inr (JArr (rows d)), d))"

definition mem_find :: "jsval \<Rightarrow> mem_db \<Rightarrow> promise \<times> mem_db" where
  "mem_find i d =
     failing d (\<lambda>d. (Inr (case find (row_at i) (rows d) of Some r \<Rightarrow> r | None \<Rightarrow> JNull), d))"

definition mem_create :: "jsval \<Rightarrow> mem_db \<Rightarrow> promise \<times> mem_db" where
  "mem_create b d =
     failing d (\<lambda>d. (Inr (mk_record (fresh_id (rows d)) b),
                     d\<lparr>rows := rows d @ [mk_record (fresh_id (rows d)) b]\<rparr>))"

definition mem_upsert :: "jsval \<Rightarrow> jsval \<Rightarrow> mem_db \<Rightarrow> promise \<times> mem_db" where
  "mem_upsert b i d =
     failing d (\<lambda>d. (Inr (mk_record i b),
                     d\<lparr>rows := (if find (row_at i) (rows d) = None
                                 then rows d @ [mk_record i b]
                                 else map (\<lambda>r. if row_at i r then mk_record i b else r) (rows d))\<rparr>))"

definition mem_save :: "jsval \<Rightarrow> mem_db \<Rightarrow> promise \<times> mem_db" where
  "mem_save e d =
     failing d (\<lambda>d. (Inr e,
                     d\<lparr>rows := map (\<lambda>r. if row_at (get_prop e ''_id'') r then e else r) (rows d)\<rparr>))"

definition mem_destroy :: "jsval \<Rightarrow> mem_db \<Rightarrow> promise \<times> mem_db" where
  "mem_destroy e d =
     failing d (\<lambda>d. (Inr JUndefined,
                     d\<lparr>rows := filter (\<lambda>r. \<not> row_at (get_prop e ''_id'') r) (rows d)\<rparr>))"

definition mem_store :: "mem_db store" where
  "mem_store =
     \<lparr>Session_findAll = mem_findAll, Session_find = mem_find, Session_create = mem_create,
      Session_upsert = mem_upsert, entity_save = mem_save, entity_destroy = mem_destroy\<rparr>"

text \<open>
  Modelled from the spec: the application of a patch, which the code leaves to the library
  fast-json-patch (not part of the repository). The spec's patch is an ordered sequence of
  operations, each validated against the document as it stands and applied, with the whole
  patch rejected at the first failure. This stand-in knows \<open>test\<close> and \<open>replace\<close> on a
  member at the top of the document (path \<open>/key\<close>), which is what the spec's scenarios use,
  and rejects any other operation. The theorems on \<open>patch\<close> below take the library as a
  parameter; the stand-in only instantiates it.
\<close>

fun set_prop :: "jsval \<Rightarrow> string \<Rightarrow> jsval \<Rightarrow> jsval" where
  "set_prop (JObj kvs) k v = JObj (map (\<lambda>kv. if fst kv = k then (k, v) else kv) kvs)"
| "set_prop d k v = d"

fun member_of_path :: "jsval \<Rightarrow> string option" where
  "member_of_path (JStr (c # key)) = (if c = CHR ''/'' then Some key else None)"
| "member_of_path v = None"

definition apply_operation :: "jsval \<Rightarrow> jsval \<Rightarrow> jsval + jsval" where
  "apply_operation doc opn =
     (case member_of_path (get_prop opn ''path'') of
        None \<Rightarrow> Inl (JNative ''OPERATION_PATH_INVALID'')
      | Some key \<Rightarrow>
          if \<not> has_prop doc key then Inl (JNative ''OPERATION_PATH_UNRESOLVABLE'')
          else if get_prop opn ''op'' = JStr ''test'' then
            (if get_prop doc key = get_prop opn ''value'' then Inr doc
             else Inl (JNative ''TEST_OPERATION_FAILED''))
          else if get_prop opn ''op'' = JStr ''replace'' then
            Inr (set_prop doc key (get_prop opn ''value''))
          else Inl (JNative ''OPERATION_OP_INVALID''))"

fun apply_operations :: "jsval \<Rightarrow> jsval list \<Rightarrow> jsval + jsval" where
  "apply_operations doc [] = Inr doc"
| "apply_operations doc (opn # ops) =
     (case apply_operation doc opn of
        Inl err \<Rightarrow> Inl err
      | Inr doc' \<Rightarrow> apply_operations doc' ops)"

definition simple_jsonpatch :: jsonpatch where
  "simple_jsonpatch doc patches =
     (case patches of
        JArr ops \<Rightarrow> apply_operations doc ops
      | _ \<Rightarrow> Inl (JNative ''SEQUENCE_NOT_AN_ARRAY''))"

definition empty_db :: mem_db where
  "empty_db = \<lparr>rows = [], fault = None\<rparr>"

definition start :: "'db \<Rightarrow> 'db ctx" where
  "start d = \<lparr>db = d, calls = [], sent = []\<rparr>"

text \<open>What a handler that may throw before its chain has called, and written on \<open>res\<close>.\<close>

definition calls_made :: "jsval + promise \<times> 'db ctx \<Rightarrow> jsval + call list" where
  "calls_made r = map_sum id (\<lambda>ps. calls (snd ps)) r"

definition writes_on_res :: "jsval + promise \<times> 'db ctx \<Rightarrow> jsval + res_call list" where
  "writes_on_res r = map_sum id (\<lambda>ps. sent (snd ps)) r"

text \<open>
  A service to run the client on: the transport answers a GET with an empty list and any
  other request with an error response whose payload is \<open>{message: "boom"}\<close>, and counts
  the requests it has seen.
\<close>

definition demo_service :: "nat ApiService" where
  "demo_service =
     \<lparr>apiUrl = ''http://localhost:3000'',
      http = (\<lambda>r n. (case r of
                        HttpGet u p \<Rightarrow> Inr (JArr [])
                      | _ \<Rightarrow> Inl (JObj [(''status'', JNum 500),
                                     (''error'', JObj [(''message'', JStr ''boom'')])]),
                      n + 1)),
      JSON_stringify = (\<lambda>v. ''{}'')\<rparr>"

section \<open>Auxiliary facts\<close>

lemmas chain_defs = then_p_def catch_p_def invoke_def respond_def

lemmas handler_defs = respondWithResult_def handleError_def handleEntityNotFound_def
  patchUpdates_def removeEntity_def

lemmas run_defs = calls_made_def writes_on_res_def start_def TypeError_def res_object_def

lemmas mem_defs = mem_store_def mem_findAll_def mem_find_def mem_create_def mem_upsert_def
  mem_save_def mem_destroy_def failing_def mk_record_def row_at_def fresh_id_def empty_db_def

lemmas jsonpatch_defs = simple_jsonpatch_def apply_operation_def

lemma map_of_filter_key: "map_of (filter (\<lambda>kv. fst kv \<noteq> k) kvs) k = None"
  by (induction kvs) auto

lemma has_prop_delete_prop: "\<not> has_prop (delete_prop b k) k"
  by (cases b) (simp_all add: map_of_filter_key)

lemma truthy_not_nullish: "truthy (get_prop b k) \<Longrightarrow> \<not> nullish b"
  by (cases b) simp_all

lemma upsert_calls:
  "\<not> nullish (body req) \<Longrightarrow>
   calls_made (upsert st req s) = Inr (calls s @ [CUpsert (strip_id (body req)) (params_id req)])"
  by (simp add: upsert_def calls_made_def chain_defs handler_defs Let_def split: sum.splits)

lemma patch_calls_found:
  assumes "\<not> nullish (body req)"
    and "Session_find st (params_id req) (db s) = (Inr e, d')" and "truthy e"
  shows "\<exists>rest. calls_made (patch st jp req s) =
     Inr (calls s @ [CFind (params_id req), CApply e (strip_id (body req))] @ rest)"
  using assms
  by (cases e; cases "jp e (strip_id (body req))")
     (simp_all add: patch_def calls_made_def chain_defs handler_defs Let_def split: sum.splits)

lemma patch_apply_throws:
  assumes "\<not> nullish (body req)"
    and "Session_find st (params_id req) (db s) = (Inr e, d')" and "truthy e"
    and "jp e (strip_id (body req)) = Inl err"
  shows "patch st jp req s =
     Inr (Inr JUndefined,
          \<lparr>db = d', calls = calls s @ [CFind (params_id req), CApply e (strip_id (body req))],
           sent = sent s @ [Send 500 err]\<rparr>)"
  using assms
  by (simp add: patch_def chain_defs handler_defs Let_def)

section \<open>Stripping the identity from the body\<close>

text \<open>
  C1, as the spec has it: every \<open>id\<close> in the body of an Upsert or a Patch is stripped
  before the body reaches the store, also an identity carried inside a patch operation.
  The code deletes \<open>_id\<close> under \<open>if (req.body._id)\<close> only. With the body
  \<open>{_id: 0, name: "a"}\<close> the store's upsert receives the body as it came, \<open>_id\<close> included;
  and a patch \<open>[{op: "replace", path: "/_id", value: 9}]\<close> is handed to the patch library
  untouched, so that the entity saved carries the identity 9 on the path \<open>/1\<close>.
\<close>

theorem falsy_id_reaches_store:
  "calls_made (upsert mem_store
       \<lparr>params_id = JNum 7, body = JObj [(''_id'', JNum 0), (''name'', JStr ''a'')]\<rparr>
       (start empty_db)) =
     Inr [CUpsert (JObj [(''_id'', JNum 0), (''name'', JStr ''a'')]) (JNum 7)] \<and>
   has_prop (JObj [(''_id'', JNum 0), (''name'', JStr ''a'')]) ''_id'' \<and>
   calls_made (patch mem_store simple_jsonpatch
       \<lparr>params_id = JNum 1,
         body = JArr [JObj [(''op'', JStr ''replace''), (''path'', JStr ''/_id''), (''value'', JNum 9)]]\<rparr>
       (start \<lparr>rows = [JObj [(''_id'', JNum 1), (''name'', JStr ''a'')]], fault = None\<rparr>)) =
     Inr [CFind (JNum 1),
          CApply (JObj [(''_id'', JNum 1), (''name'', JStr ''a'')])
            (JArr [JObj [(''op'', JStr ''replace''), (''path'', JStr ''/_id''), (''value'', JNum 9)]]),
          CSave (JObj [(''_id'', JNum 9), (''name'', JStr ''a'')])]"
  by (simp add: upsert_def patch_def strip_id_def chain_defs handler_defs run_defs mem_defs
      jsonpatch_defs)

text \<open>
  C1, amended: when the body of an Upsert or a Patch carries a truthy \<open>_id\<close>, the property
  is deleted before the body is used. Upsert calls the store's upsert with the body without
  \<open>_id\<close> and with the identity of the path; Patch looks the entity up by the identity of
  the path and hands the body without \<open>_id\<close> to the patch library. This holds for every
  store and every patch library.
\<close>

theorem truthy_id_stripped_before_store:
  assumes "truthy (get_prop (body req) ''_id'')"
  shows "\<not> has_prop (strip_id (body req)) ''_id'' \<and>
     calls_made (upsert st req s) =
       Inr (calls s @ [CUpsert (delete_prop (body req) ''_id'') (params_id req)]) \<and>
     (\<forall>e d'. Session_find st (params_id req) (db s) = (Inr e, d') \<and> truthy e \<longrightarrow>
        (\<exists>rest. calls_made (patch st jp req s) =
           Inr (calls s @ [CFind (params_id req), CApply e (delete_prop (body req) ''_id'')] @ rest)))"
proof -
  from assms have nn: "\<not> nullish (body req)"
    by (rule truthy_not_nullish)
  from assms have st: "strip_id (body req) = delete_prop (body req) ''_id''"
    by (simp add: strip_id_def)
  have "\<not> has_prop (strip_id (body req)) ''_id''"
    unfolding st by (rule has_prop_delete_prop)
  moreover have "calls_made (upsert st req s) =
       Inr (calls s @ [CUpsert (delete_prop (body req) ''_id'') (params_id req)])"
    using upsert_calls [OF nn, of st s] by (simp add: st)
  moreover have "\<exists>rest. calls_made (patch st jp req s) =
           Inr (calls s @ [CFind (params_id req), CApply e (delete_prop (body req) ''_id'')] @ rest)"
    if "Session_find st (params_id req) (db s) = (Inr e, d')" "truthy e" for e d'
    using patch_calls_found [OF nn that, of jp] by (simp add: st)
  ultimately show ?thesis by blast
qed

theorem truthy_id_stripped_before_store_witness:
  "truthy (get_prop (JObj [(''_id'', JNum 3), (''name'', JStr ''a'')]) ''_id'') \<and>
   calls_made (upsert mem_store
       \<lparr>params_id = JNum 7, body = JObj [(''_id'', JNum 3), (''name'', JStr ''a'')]\<rparr>
       (start empty_db)) =
     Inr [CUpsert (JObj [(''name'', JStr ''a'')]) (JNum 7)]"
  using truthy_id_stripped_before_store
    [of "\<lparr>params_id = JNum 7, body = JObj [(''_id'', JNum 3), (''name'', JStr ''a'')]\<rparr>"
        mem_store "start empty_db" simple_jsonpatch]
  by (simp add: start_def)

text \<open>
  C8: the stripping step of Upsert and Patch removes \<open>_id\<close> from the body only when its
  value is truthy. A body whose \<open>_id\<close> is falsy (0, the empty string, false, null, or
  absent) is left as it is: Upsert passes it to the store's upsert with \<open>_id\<close> still in it,
  and Patch passes it on to the patch step, for every store and every patch library.
\<close>

theorem falsy_id_not_stripped:
  assumes "\<not> nullish (body req)" and "\<not> truthy (get_prop (body req) ''_id'')"
  shows "strip_id (body req) = body req \<and>
     calls_made (upsert st req s) = Inr (calls s @ [CUpsert (body req) (params_id req)]) \<and>
     (\<forall>e d'. Session_find st (params_id req) (db s) = (Inr e, d') \<and> truthy e \<longrightarrow>
        (\<exists>rest. calls_made (patch st jp req s) =
           Inr (calls s @ [CFind (params_id req), CApply e (body req)] @ rest)))"
proof -
  from assms(2) have st: "strip_id (body req) = body req"
    by (simp add: strip_id_def)
  have "calls_made (upsert st req s) = Inr (calls s @ [CUpsert (body req) (params_id req)])"
    using upsert_calls [OF assms(1), of st s] by (simp add: st)
  moreover have "\<exists>rest. calls_made (patch st jp req s) =
           Inr (calls s @ [CFind (params_id req), CApply e (body req)] @ rest)"
    if "Session_find st (params_id req) (db s) = (Inr e, d')" "truthy e" for e d'
    using patch_calls_found [OF assms(1) that, of jp] by (simp add: st)
  ultimately show ?thesis using st by blast
qed

theorem falsy_id_not_stripped_witness:
  "\<not> nullish (JObj [(''_id'', JStr []), (''name'', JStr ''a'')]) \<and>
   \<not> truthy (get_prop (JObj [(''_id'', JStr []), (''name'', JStr ''a'')]) ''_id'') \<and>
   has_prop (strip_id (JObj [(''_id'', JStr []), (''name'', JStr ''a'')])) ''_id'' \<and>
   calls_made (upsert mem_store
       \<lparr>params_id = JNum 7, body = JObj [(''_id'', JStr []), (''name'', JStr ''a'')]\<rparr>
       (start empty_db)) =
     Inr [CUpsert (JObj [(''_id'', JStr []), (''name'', JStr ''a'')]) (JNum 7)]"
  using falsy_id_not_stripped
    [of "\<lparr>params_id = JNum 7, body = JObj [(''_id'', JStr []), (''name'', JStr ''a'')]\<rparr>"
        mem_store "start empty_db" simple_jsonpatch]
  by (simp add: start_def)

section \<open>The success responder\<close>

text \<open>
  C10: when the value that reaches the success responder is falsy, no response is written:
  \<open>respondWithResult\<close> returns null and leaves \<open>res\<close> as it was. So an Index whose store
  resolves with a falsy value writes nothing on \<open>res\<close>.
\<close>

theorem respondWithResult_falsy_sends_nothing:
  assumes "\<not> truthy entity"
  shows "respondWithResult statusCode entity s = (Inr JNull, s) \<and>
     (\<forall>d'. Session_findAll st (db s) = (Inr entity, d') \<longrightarrow>
        sent (snd (index st req s)) = sent s)"
  using assms by (simp add: respondWithResult_def index_def chain_defs)

theorem respondWithResult_falsy_sends_nothing_witness:
  "\<not> truthy (JBool False) \<and>
   respondWithResult (Some 201) (JBool False) (start empty_db) = (Inr JNull, start empty_db)"
  using respondWithResult_falsy_sends_nothing [of "JBool False" "Some 201" "start empty_db"]
  by simp

section \<open>The outcome of each operation\<close>

text \<open>
  What each handler returns, calls and writes on \<open>res\<close>, by the outcome of the store's
  operations, for every store and every patch library.
\<close>

lemma index_ok:
  assumes "Session_findAll st (db s) = (Inr v, d')" and "truthy v"
  shows "index st req s =
     (Inr res_object, \<lparr>db = d', calls = calls s @ [CFindAll], sent = sent s @ [Json 200 v]\<rparr>)"
  using assms by (simp add: index_def chain_defs handler_defs)

lemma index_rejected:
  assumes "Session_findAll st (db s) = (Inl err, d')"
  shows "index st req s =
     (Inr JUndefined, \<lparr>db = d', calls = calls s @ [CFindAll], sent = sent s @ [Send 500 err]\<rparr>)"
  using assms by (simp add: index_def chain_defs handler_defs)

lemma show_ok:
  assumes "Session_find st (params_id req) (db s) = (Inr e, d')" and "truthy e"
  shows "show_op st req s =
     (Inr res_object,
      \<lparr>db = d', calls = calls s @ [CFind (params_id req)], sent = sent s @ [Json 200 e]\<rparr>)"
  using assms by (simp add: show_op_def chain_defs handler_defs)

lemma show_not_found:
  assumes "Session_find st (params_id req) (db s) = (Inr e, d')" and "\<not> truthy e"
  shows "show_op st req s =
     (Inr JNull, \<lparr>db = d', calls = calls s @ [CFind (params_id req)], sent = sent s @ [End 404]\<rparr>)"
  using assms by (simp add: show_op_def chain_defs handler_defs)

lemma show_rejected:
  assumes "Session_find st (params_id req) (db s) = (Inl err, d')"
  shows "show_op st req s =
     (Inr JUndefined,
      \<lparr>db = d', calls = calls s @ [CFind (params_id req)], sent = sent s @ [Send 500 err]\<rparr>)"
  using assms by (simp add: show_op_def chain_defs handler_defs)

lemma create_ok:
  assumes "Session_create st (body req) (db s) = (Inr e, d')" and "truthy e"
  shows "create st req s =
     (Inr res_object,
      \<lparr>db = d', calls = calls s @ [CCreate (body req)], sent = sent s @ [Json 201 e]\<rparr>)"
  using assms by (simp add: create_def chain_defs handler_defs)

lemma create_rejected:
  assumes "Session_create st (body req) (db s) = (Inl err, d')"
  shows "create st req s =
     (Inr JUndefined,
      \<lparr>db = d', calls = calls s @ [CCreate (body req)], sent = sent s @ [Send 500 err]\<rparr>)"
  using assms by (simp add: create_def chain_defs handler_defs)

lemma upsert_ok:
  assumes "\<not> nullish (body req)"
    and "Session_upsert st (strip_id (body req)) (params_id req) (db s) = (Inr v, d')"
    and "truthy v"
  shows "upsert st req s =
     Inr (Inr res_object,
          \<lparr>db = d', calls = calls s @ [CUpsert (strip_id (body req)) (params_id req)],
           sent = sent s @ [Json 200 v]\<rparr>)"
  using assms by (simp add: upsert_def chain_defs handler_defs)

lemma upsert_rejected:
  assumes "\<not> nullish (body req)"
    and "Session_upsert st (strip_id (body req)) (params_id req) (db s) = (Inl err, d')"
  shows "upsert st req s =
     Inr (Inr JUndefined,
          \<lparr>db = d', calls = calls s @ [CUpsert (strip_id (body req)) (params_id req)],
           sent = sent s @ [Send 500 err]\<rparr>)"
  using assms by (simp add: upsert_def chain_defs handler_defs)

lemma patch_ok:
  assumes "\<not> nullish (body req)"
    and "Session_find st (params_id req) (db s) = (Inr (JObj kvs), d1)"
    and "jp (JObj kvs) (strip_id (body req)) = Inr doc"
    and "entity_save st doc d1 = (Inr v, d2)" and "truthy v"
  shows "patch st jp req s =
     Inr (Inr res_object,
          \<lparr>db = d2,
           calls = calls s @ [CFind (params_id req), CApply (JObj kvs) (strip_id (body req)),
                              CSave doc],
           sent = sent s @ [Json 200 v]\<rparr>)"
  using assms by (simp add: patch_def chain_defs handler_defs)

lemma patch_save_rejected:
  assumes "\<not> nullish (body req)"
    and "Session_find st (params_id req) (db s) = (Inr (JObj kvs), d1)"
    and "jp (JObj kvs) (strip_id (body req)) = Inr doc"
    and "entity_save st doc d1 = (Inl err, d2)"
  shows "patch st jp req s =
     Inr (Inr JUndefined,
          \<lparr>db = d2,
           calls = calls s @ [CFind (params_id req), CApply (JObj kvs) (strip_id (body req)),
                              CSave doc],
           sent = sent s @ [Send 500 err]\<rparr>)"
  using assms by (simp add: patch_def chain_defs handler_defs)

lemma patch_find_rejected:
  assumes "\<not> nullish (body req)"
    and "Session_find st (params_id req) (db s) = (Inl err, d')"
  shows "patch st jp req s =
     Inr (Inr JUndefined,
          \<lparr>db = d', calls = calls s @ [CFind (params_id req)], sent = sent s @ [Send 500 err]\<rparr>)"
  using assms by (simp add: patch_def chain_defs handler_defs)

lemma patch_not_found:
  assumes "\<not> nullish (body req)"
    and "Session_find st (params_id req) (db s) = (Inr e, d')" and "\<not> truthy e"
  shows "patch st jp req s =
     Inr (Inr JUndefined,
          \<lparr>db = d', calls = calls s @ [CFind (params_id req), CApply JNull (strip_id (body req))],
           sent = sent s @
             [End 404,
              Send 500 (case jp JNull (strip_id (body req)) of
                          Inl err \<Rightarrow> err | Inr doc \<Rightarrow> TypeError)]\<rparr>)"
  using assms
  by (cases "jp JNull (strip_id (body req))")
     (simp_all add: patch_def chain_defs handler_defs)

lemma destroy_ok:
  assumes "Session_find st (params_id req) (db s) = (Inr (JObj kvs), d1)"
    and "entity_destroy st (JObj kvs) d1 = (Inr v, d2)"
  shows "destroy st req s =
     (Inr JUndefined,
      \<lparr>db = d2, calls = calls s @ [CFind (params_id req), CDestroy (JObj kvs)],
       sent = sent s @ [End 204]\<rparr>)"
  using assms by (simp add: destroy_def chain_defs handler_defs)

lemma destroy_not_found:
  assumes "Session_find st (params_id req) (db s) = (Inr e, d')" and "\<not> truthy e"
  shows "destroy st req s =
     (Inr JUndefined,
      \<lparr>db = d', calls = calls s @ [CFind (params_id req)], sent = sent s @ [End 404]\<rparr>)"
  using assms by (simp add: destroy_def chain_defs handler_defs)

lemma destroy_find_rejected:
  assumes "Session_find st (params_id req) (db s) = (Inl err, d')"
  shows "destroy st req s =
     (Inr JUndefined,
      \<lparr>db = d', calls = calls s @ [CFind (params_id req)], sent = sent s @ [Send 500 err]\<rparr>)"
  using assms by (simp add: destroy_def chain_defs handler_defs)

lemma destroy_rejected:
  assumes "Session_find st (params_id req) (db s) = (Inr (JObj kvs), d1)"
    and "entity_destroy st (JObj kvs) d1 = (Inl err, d2)"
  shows "destroy st req s =
     (Inr JUndefined,
      \<lparr>db = d2, calls = calls s @ [CFind (params_id req), CDestroy (JObj kvs)],
       sent = sent s @ [Send 500 err]\<rparr>)"
  using assms by (simp add: destroy_def chain_defs handler_defs)

section \<open>A patch that fails\<close>

text \<open>
  C2: when the patch of a Patch request fails on the entity found (the library throws, as
  it does on an operation that is invalid or cannot be applied, such as a \<open>test\<close> that does
  not match), the patch is rejected as a whole: the chain is rejected before \<open>entity.save()\<close>,
  so the only calls are the lookup and the patch step, no write reaches the store, the
  database is what the lookup left, and the error goes to the caller.
\<close>

theorem failed_patch_writes_nothing:
  assumes "\<not> nullish (body req)"
    and "Session_find st (params_id req) (db s) = (Inr e, d')" and "truthy e"
    and "jp e (strip_id (body req)) = Inl err"
  shows "\<exists>s'. patch st jp req s = Inr (Inr JUndefined, s') \<and>
     db s' = d' \<and>
     filter is_write (calls s') = filter is_write (calls s) \<and>
     calls s' = calls s @ [CFind (params_id req), CApply e (strip_id (body req))] \<and>
     sent s' = sent s @ [Send 500 err]"
  using patch_apply_throws [where jp = jp, OF assms] by simp

theorem failed_patch_writes_nothing_witness:
  "patch mem_store simple_jsonpatch
     \<lparr>params_id = JNum 1,
       body = JArr [JObj [(''op'', JStr ''test''), (''path'', JStr ''/name''), (''value'', JStr ''z'')]]\<rparr>
     (start \<lparr>rows = [JObj [(''_id'', JNum 1), (''name'', JStr ''a'')]], fault = None\<rparr>) =
   Inr (Inr JUndefined,
        \<lparr>db = \<lparr>rows = [JObj [(''_id'', JNum 1), (''name'', JStr ''a'')]], fault = None\<rparr>,
         calls = [CFind (JNum 1),
                  CApply (JObj [(''_id'', JNum 1), (''name'', JStr ''a'')])
                    (JArr [JObj [(''op'', JStr ''test''), (''path'', JStr ''/name''),
                                 (''value'', JStr ''z'')]])],
         sent = [Send 500 (JNative ''TEST_OPERATION_FAILED'')]\<rparr>)"
proof -
  let ?ops = "JArr [JObj [(''op'', JStr ''test''), (''path'', JStr ''/name''), (''value'', JStr ''z'')]]"
  let ?row = "JObj [(''_id'', JNum 1), (''name'', JStr ''a'')]"
  let ?d = "\<lparr>rows = [?row], fault = None\<rparr>"
  let ?req = "\<lparr>params_id = JNum 1, body = ?ops\<rparr>"
  have 1: "\<not> nullish (body ?req)" by simp
  have 2: "Session_find mem_store (params_id ?req) (db (start ?d)) = (Inr ?row, ?d)"
    by (simp add: mem_defs start_def)
  have 3: "truthy ?row" by simp
  have 4: "simple_jsonpatch ?row (strip_id (body ?req)) = Inl (JNative ''TEST_OPERATION_FAILED'')"
    by (simp add: jsonpatch_defs strip_id_def)
  from failed_patch_writes_nothing [where jp = simple_jsonpatch, OF 1 2 3 4]
  show ?thesis by (auto simp: start_def strip_id_def)
qed

text \<open>
  C9: whatever is caught by the catch path of an operation is answered with status 500 and
  the raw error as the body, whatever the kind of the failure. A patch that is malformed
  or cannot be applied gives 500 with the library's error, not a 4xx code; so does the
  TypeError of \<open>entity.save()\<close> on an entity that is no model instance.
\<close>

theorem caught_failure_answered_500:
  "catch_p (Inl err, s) (handleError None) = (Inr JUndefined, s\<lparr>sent := sent s @ [Send 500 err]\<rparr>) \<and>
   status_of (Send (or_default None 500) err) = 500 \<and>
   body_of (Send (or_default None 500) err) = Some err \<and>
   (\<forall>e d'. \<not> nullish (body req) \<and> Session_find st (params_id req) (db s) = (Inr e, d') \<and>
      truthy e \<and> jp e (strip_id (body req)) = Inl err \<longrightarrow>
      writes_on_res (patch st jp req s) = Inr (sent s @ [Send 500 err])) \<and>
   (\<forall>e d' doc. \<not> nullish (body req) \<and> Session_find st (params_id req) (db s) = (Inr e, d') \<and>
      truthy e \<and> (\<forall>kvs. e \<noteq> JObj kvs) \<and> jp e (strip_id (body req)) = Inr doc \<longrightarrow>
      writes_on_res (patch st jp req s) = Inr (sent s @ [Send 500 TypeError]))"
proof (intro conjI allI impI)
  show "catch_p (Inl err, s) (handleError None) =
      (Inr JUndefined, s\<lparr>sent := sent s @ [Send 500 err]\<rparr>)"
    by (simp add: catch_p_def handleError_def respond_def)
  show "status_of (Send (or_default None 500) err) = 500" by simp
  show "body_of (Send (or_default None 500) err) = Some err" by simp
next
  fix e d'
  assume "\<not> nullish (body req) \<and> Session_find st (params_id req) (db s) = (Inr e, d') \<and>
      truthy e \<and> jp e (strip_id (body req)) = Inl err"
  then show "writes_on_res (patch st jp req s) = Inr (sent s @ [Send 500 err])"
    using patch_apply_throws [where jp = jp and req = req and st = st and s = s and e = e]
    by (simp add: writes_on_res_def)
next
  fix e d' doc
  assume "\<not> nullish (body req) \<and> Session_find st (params_id req) (db s) = (Inr e, d') \<and>
      truthy e \<and> (\<forall>kvs. e \<noteq> JObj kvs) \<and> jp e (strip_id (body req)) = Inr doc"
  then show "writes_on_res (patch st jp req s) = Inr (sent s @ [Send 500 TypeError])"
    by (cases e) (auto simp add: patch_def writes_on_res_def chain_defs handler_defs)
qed

theorem caught_failure_answered_500_witness:
  "writes_on_res (patch mem_store simple_jsonpatch
     \<lparr>params_id = JNum 1,
       body = JArr [JObj [(''op'', JStr ''frobnicate''), (''path'', JStr ''/name''), (''value'', JStr ''x'')]]\<rparr>
     (start \<lparr>rows = [JObj [(''_id'', JNum 1), (''name'', JStr ''a'')]], fault = None\<rparr>)) =
   Inr [Send 500 (JNative ''OPERATION_OP_INVALID'')]"
  using caught_failure_answered_500
    [of "JNative ''OPERATION_OP_INVALID''"
        "start \<lparr>rows = [JObj [(''_id'', JNum 1), (''name'', JStr ''a'')]], fault = None\<rparr>"
        "\<lparr>params_id = JNum 1,
          body = JArr [JObj [(''op'', JStr ''frobnicate''), (''path'', JStr ''/name''), (''value'', JStr ''x'')]]\<rparr>"
        mem_store simple_jsonpatch]
  by (simp add: mem_defs jsonpatch_defs start_def strip_id_def)

section \<open>Not found\<close>

text \<open>
  C3 claims that Show, Patch and Destroy answer 404 when there is no record at the \<open>id\<close> and
  do nothing more: no write, no call of the error responder. Show and Destroy do so.
  Patch does not: \<open>patchUpdates\<close> has no test of the entity, unlike \<open>respondWithResult\<close> and
  \<open>removeEntity\<close>, so after the 404 it runs on null; either the library throws or
  \<open>entity.save()\<close> on null does, and the chain's catch calls \<open>handleError\<close>, which writes a
  500 (\<open>patch_not_found\<close> above, for every store and library). Here on
  \<open>PATCH /999\<close> with the body \<open>[]\<close> and an empty store.
\<close>

theorem patch_not_found_runs_handleError:
  "patch mem_store simple_jsonpatch \<lparr>params_id = JNum 999, body = JArr []\<rparr> (start empty_db) =
     Inr (Inr JUndefined,
          \<lparr>db = empty_db, calls = [CFind (JNum 999), CApply JNull (JArr [])],
           sent = [End 404, Send 500 TypeError]\<rparr>) \<and>
   show_op mem_store \<lparr>params_id = JNum 999, body = JUndefined\<rparr> (start empty_db) =
     (Inr JNull, \<lparr>db = empty_db, calls = [CFind (JNum 999)], sent = [End 404]\<rparr>) \<and>
   destroy mem_store \<lparr>params_id = JNum 999, body = JUndefined\<rparr> (start empty_db) =
     (Inr JUndefined, \<lparr>db = empty_db, calls = [CFind (JNum 999)], sent = [End 404]\<rparr>)"
  by (simp add: patch_def show_op_def destroy_def strip_id_def chain_defs handler_defs run_defs
      mem_defs jsonpatch_defs)

section \<open>Status codes\<close>

text \<open>
  C5: the status codes of the operations. A success of Index, Show, Upsert or Patch is
  answered with 200 and the result, a success of Create with 201, a success of Destroy with
  204 and no body. When the lookup of Show, Patch or Destroy finds no record, 404 is
  written (first, in the case of Patch). A rejection of any call on the store is answered
  with 500 and the error as the body. A success is a store operation that resolves, with a
  truthy value where the value is sent.
\<close>

theorem status_codes:
  "(\<forall>v d'. Session_findAll st (db s) = (Inr v, d') \<and> truthy v \<longrightarrow>
      sent (snd (index st req s)) = sent s @ [Json 200 v]) \<and>
   (\<forall>e d'. Session_find st (params_id req) (db s) = (Inr e, d') \<and> truthy e \<longrightarrow>
      sent (snd (show_op st req s)) = sent s @ [Json 200 e]) \<and>
   (\<forall>v d'. \<not> nullish (body req) \<and>
      Session_upsert st (strip_id (body req)) (params_id req) (db s) = (Inr v, d') \<and> truthy v \<longrightarrow>
      writes_on_res (upsert st req s) = Inr (sent s @ [Json 200 v])) \<and>
   (\<forall>kvs d1 doc v d2. \<not> nullish (body req) \<and>
      Session_find st (params_id req) (db s) = (Inr (JObj kvs), d1) \<and>
      jp (JObj kvs) (strip_id (body req)) = Inr doc \<and>
      entity_save st doc d1 = (Inr v, d2) \<and> truthy v \<longrightarrow>
      writes_on_res (patch st jp req s) = Inr (sent s @ [Json 200 v])) \<and>
   (\<forall>e d'. Session_create st (body req) (db s) = (Inr e, d') \<and> truthy e \<longrightarrow>
      sent (snd (create st req s)) = sent s @ [Json 201 e]) \<and>
   (\<forall>kvs d1 v d2. Session_find st (params_id req) (db s) = (Inr (JObj kvs), d1) \<and>
      entity_destroy st (JObj kvs) d1 = (Inr v, d2) \<longrightarrow>
      sent (snd (destroy st req s)) = sent s @ [End 204] \<and> body_of (End 204) = None) \<and>
   (\<forall>e d'. Session_find st (params_id req) (db s) = (Inr e, d') \<and> \<not> truthy e \<longrightarrow>
      sent (snd (show_op st req s)) = sent s @ [End 404] \<and>
      sent (snd (destroy st req s)) = sent s @ [End 404] \<and>
      (\<not> nullish (body req) \<longrightarrow>
         (\<exists>rest. writes_on_res (patch st jp req s) = Inr (sent s @ End 404 # rest)))) \<and>
   (\<forall>err d'. Session_findAll st (db s) = (Inl err, d') \<longrightarrow>
      sent (snd (index st req s)) = sent s @ [Send 500 err]) \<and>
   (\<forall>err d'. Session_find st (params_id req) (db s) = (Inl err, d') \<longrightarrow>
      sent (snd (show_op st req s)) = sent s @ [Send 500 err] \<and>
      sent (snd (destroy st req s)) = sent s @ [Send 500 err] \<and>
      (\<not> nullish (body req) \<longrightarrow>
         writes_on_res (patch st jp req s) = Inr (sent s @ [Send 500 err]))) \<and>
   (\<forall>err d'. Session_create st (body req) (db s) = (Inl err, d') \<longrightarrow>
      sent (snd (create st req s)) = sent s @ [Send 500 err]) \<and>
   (\<forall>err d'. \<not> nullish (body req) \<and>
      Session_upsert st (strip_id (body req)) (params_id req) (db s) = (Inl err, d') \<longrightarrow>
      writes_on_res (upsert st req s) = Inr (sent s @ [Send 500 err])) \<and>
   (\<forall>kvs d1 doc err d2. \<not> nullish (body req) \<and>
      Session_find st (params_id req) (db s) = (Inr (JObj kvs), d1) \<and>
      jp (JObj kvs) (strip_id (body req)) = Inr doc \<and>
      entity_save st doc d1 = (Inl err, d2) \<longrightarrow>
      writes_on_res (patch st jp req s) = Inr (sent s @ [Send 500 err])) \<and>
   (\<forall>kvs d1 err d2. Session_find st (params_id req) (db s) = (Inr (JObj kvs), d1) \<and>
      entity_destroy st (JObj kvs) d1 = (Inl err, d2) \<longrightarrow>
      sent (snd (destroy st req s)) = sent s @ [Send 500 err])"
proof -
  have ok_index: "sent (snd (index st req s)) = sent s @ [Json 200 v]"
    if "Session_findAll st (db s) = (Inr v, d')" "truthy v" for v d'
    using index_ok [OF that, of req] by simp
  have ok_show: "sent (snd (show_op st req s)) = sent s @ [Json 200 e]"
    if "Session_find st (params_id req) (db s) = (Inr e, d')" "truthy e" for e d'
    using show_ok [OF that] by simp
  have ok_upsert: "writes_on_res (upsert st req s) = Inr (sent s @ [Json 200 v])"
    if "\<not> nullish (body req)"
      "Session_upsert st (strip_id (body req)) (params_id req) (db s) = (Inr v, d')" "truthy v"
    for v d'
    using upsert_ok [OF that] by (simp add: writes_on_res_def)
  have ok_patch: "writes_on_res (patch st jp req s) = Inr (sent s @ [Json 200 v])"
    if "\<not> nullish (body req)" "Session_find st (params_id req) (db s) = (Inr (JObj kvs), d1)"
      "jp (JObj kvs) (strip_id (body req)) = Inr doc" "entity_save st doc d1 = (Inr v, d2)"
      "truthy v"
    for kvs d1 doc v d2
    using patch_ok [where jp = jp, OF that] by (simp add: writes_on_res_def)
  have ok_create: "sent (snd (create st req s)) = sent s @ [Json 201 e]"
    if "Session_create st (body req) (db s) = (Inr e, d')" "truthy e" for e d'
    using create_ok [OF that] by simp
  have ok_destroy: "sent (snd (destroy st req s)) = sent s @ [End 204]"
    if "Session_find st (params_id req) (db s) = (Inr (JObj kvs), d1)"
      "entity_destroy st (JObj kvs) d1 = (Inr v, d2)" for kvs d1 v d2
    using destroy_ok [OF that] by simp
  have nf_show: "sent (snd (show_op st req s)) = sent s @ [End 404]"
    and nf_destroy: "sent (snd (destroy st req s)) = sent s @ [End 404]"
    and nf_patch: "\<not> nullish (body req) \<Longrightarrow>
       \<exists>rest. writes_on_res (patch st jp req s) = Inr (sent s @ End 404 # rest)"
    if "Session_find st (params_id req) (db s) = (Inr e, d')" "\<not> truthy e" for e d'
    using show_not_found [OF that] destroy_not_found [OF that]
      patch_not_found [where jp = jp, OF _ that]
    by (simp_all add: writes_on_res_def)
  have err_index: "sent (snd (index st req s)) = sent s @ [Send 500 err]"
    if "Session_findAll st (db s) = (Inl err, d')" for err d'
    using index_rejected [OF that, of req] by simp
  have err_show: "sent (snd (show_op st req s)) = sent s @ [Send 500 err]"
    and err_destroy: "sent (snd (destroy st req s)) = sent s @ [Send 500 err]"
    and err_patch: "\<not> nullish (body req) \<Longrightarrow>
       writes_on_res (patch st jp req s) = Inr (sent s @ [Send 500 err])"
    if "Session_find st (params_id req) (db s) = (Inl err, d')" for err d'
    using show_rejected [OF that] destroy_find_rejected [OF that]
      patch_find_rejected [where jp = jp, OF _ that]
    by (simp_all add: writes_on_res_def)
  have err_create: "sent (snd (create st req s)) = sent s @ [Send 500 err]"
    if "Session_create st (body req) (db s) = (Inl err, d')" for err d'
    using create_rejected [OF that] by simp
  have err_upsert: "writes_on_res (upsert st req s) = Inr (sent s @ [Send 500 err])"
    if "\<not> nullish (body req)"
      "Session_upsert st (strip_id (body req)) (params_id req) (db s) = (Inl err, d')"
    for err d'
    using upsert_rejected [OF that] by (simp add: writes_on_res_def)
  have err_save: "writes_on_res (patch st jp req s) = Inr (sent s @ [Send 500 err])"
    if "\<not> nullish (body req)" "Session_find st (params_id req) (db s) = (Inr (JObj kvs), d1)"
      "jp (JObj kvs) (strip_id (body req)) = Inr doc" "entity_save st doc d1 = (Inl err, d2)"
    for kvs d1 doc err d2
    using patch_save_rejected [where jp = jp, OF that] by (simp add: writes_on_res_def)
  have err_destroyed: "sent (snd (destroy st req s)) = sent s @ [Send 500 err]"
    if "Session_find st (params_id req) (db s) = (Inr (JObj kvs), d1)"
      "entity_destroy st (JObj kvs) d1 = (Inl err, d2)" for kvs d1 err d2
    using destroy_rejected [OF that] by simp
  show ?thesis
    apply (intro conjI allI impI)
    subgoal by (elim conjE) (rule ok_index)
    subgoal by (elim conjE) (rule ok_show)
    subgoal by (elim conjE) (rule ok_upsert)
    subgoal by (elim conjE) (rule ok_patch)
    subgoal by (elim conjE) (rule ok_create)
    subgoal by (elim conjE) (rule ok_destroy)
    subgoal by simp
    subgoal by (elim conjE) (rule nf_show)
    subgoal by (elim conjE) (rule nf_destroy)
    subgoal by (elim conjE) (rule nf_patch)
    subgoal by (rule err_index)
    subgoal by (rule err_show)
    subgoal by (rule err_destroy)
    subgoal by (rule err_patch)
    subgoal by (rule err_create)
    subgoal by (elim conjE) (rule err_upsert)
    subgoal by (elim conjE) (rule err_save)
    subgoal by (elim conjE) (rule err_destroyed)
    done
qed

theorem status_codes_witness:
  "sent (snd (index mem_store
       \<lparr>params_id = JNum 1,
         body = JArr [JObj [(''op'', JStr ''replace''), (''path'', JStr ''/name''), (''value'', JStr ''b'')]]\<rparr>
       (start \<lparr>rows = [JObj [(''_id'', JNum 1), (''name'', JStr ''a'')]], fault = None\<rparr>))) =
     [Json 200 (JArr [JObj [(''_id'', JNum 1), (''name'', JStr ''a'')]])] \<and>
   sent (snd (show_op mem_store
       \<lparr>params_id = JNum 1,
         body = JArr [JObj [(''op'', JStr ''replace''), (''path'', JStr ''/name''), (''value'', JStr ''b'')]]\<rparr>
       (start \<lparr>rows = [JObj [(''_id'', JNum 1), (''name'', JStr ''a'')]], fault = None\<rparr>))) =
     [Json 200 (JObj [(''_id'', JNum 1), (''name'', JStr ''a'')])] \<and>
   writes_on_res (patch mem_store simple_jsonpatch
       \<lparr>params_id = JNum 1,
         body = JArr [JObj [(''op'', JStr ''replace''), (''path'', JStr ''/name''), (''value'', JStr ''b'')]]\<rparr>
       (start \<lparr>rows = [JObj [(''_id'', JNum 1), (''name'', JStr ''a'')]], fault = None\<rparr>)) =
     Inr [Json 200 (JObj [(''_id'', JNum 1), (''name'', JStr ''b'')])] \<and>
   sent (snd (destroy mem_store
       \<lparr>params_id = JNum 1,
         body = JArr [JObj [(''op'', JStr ''replace''), (''path'', JStr ''/name''), (''value'', JStr ''b'')]]\<rparr>
       (start \<lparr>rows = [JObj [(''_id'', JNum 1), (''name'', JStr ''a'')]], fault = None\<rparr>))) =
     [End 204] \<and>
   sent (snd (create mem_store \<lparr>params_id = JNum 999, body = JObj [(''name'', JStr ''a'')]\<rparr>
       (start empty_db))) =
     [Json 201 (JObj [(''_id'', JNum 1), (''name'', JStr ''a'')])] \<and>
   writes_on_res (upsert mem_store \<lparr>params_id = JNum 999, body = JObj [(''name'', JStr ''a'')]\<rparr>
       (start empty_db)) =
     Inr [Json 200 (JObj [(''_id'', JNum 999), (''name'', JStr ''a'')])] \<and>
   sent (snd (show_op mem_store \<lparr>params_id = JNum 999, body = JObj [(''name'', JStr ''a'')]\<rparr>
       (start empty_db))) =
     [End 404] \<and>
   sent (snd (index mem_store \<lparr>params_id = JNum 1, body = JNull\<rparr>
       (start \<lparr>rows = [], fault = Some (JNative ''SequelizeConnectionError'')\<rparr>))) =
     [Send 500 (JNative ''SequelizeConnectionError'')]"
proof -
  let ?ops = "JArr [JObj [(''op'', JStr ''replace''), (''path'', JStr ''/name''), (''value'', JStr ''b'')]]"
  let ?d = "\<lparr>rows = [JObj [(''_id'', JNum 1), (''name'', JStr ''a'')]], fault = None\<rparr>"
  note a = status_codes [of mem_store "start ?d" "\<lparr>params_id = JNum 1, body = ?ops\<rparr>"
      simple_jsonpatch]
  note b = status_codes [of mem_store "start empty_db"
      "\<lparr>params_id = JNum 999, body = JObj [(''name'', JStr ''a'')]\<rparr>" simple_jsonpatch]
  note c = status_codes [of mem_store
      "start \<lparr>rows = [], fault = Some (JNative ''SequelizeConnectionError'')\<rparr>"
      "\<lparr>params_id = JNum 1, body = JNull\<rparr>" simple_jsonpatch]
  have 1: "sent (snd (index mem_store \<lparr>params_id = JNum 1, body = ?ops\<rparr> (start ?d))) =
     [Json 200 (JArr [JObj [(''_id'', JNum 1), (''name'', JStr ''a'')]])]"
    using a by (simp add: mem_defs start_def)
  have 2: "sent (snd (show_op mem_store \<lparr>params_id = JNum 1, body = ?ops\<rparr> (start ?d))) =
     [Json 200 (JObj [(''_id'', JNum 1), (''name'', JStr ''a'')])]"
    using a by (simp add: mem_defs start_def)
  have 3: "writes_on_res (patch mem_store simple_jsonpatch \<lparr>params_id = JNum 1, body = ?ops\<rparr>
       (start ?d)) = Inr [Json 200 (JObj [(''_id'', JNum 1), (''name'', JStr ''b'')])]"
    using a by (simp add: mem_defs jsonpatch_defs strip_id_def start_def)
  have 4: "sent (snd (destroy mem_store \<lparr>params_id = JNum 1, body = ?ops\<rparr> (start ?d))) =
     [End 204]"
    using a by (simp add: mem_defs start_def)
  have 5: "sent (snd (create mem_store
       \<lparr>params_id = JNum 999, body = JObj [(''name'', JStr ''a'')]\<rparr> (start empty_db))) =
     [Json 201 (JObj [(''_id'', JNum 1), (''name'', JStr ''a'')])]"
    using b by (simp add: mem_defs start_def)
  have 6: "writes_on_res (upsert mem_store
       \<lparr>params_id = JNum 999, body = JObj [(''name'', JStr ''a'')]\<rparr> (start empty_db)) =
     Inr [Json 200 (JObj [(''_id'', JNum 999), (''name'', JStr ''a'')])]"
    using b by (simp add: mem_defs strip_id_def start_def)
  have 7: "sent (snd (show_op mem_store
       \<lparr>params_id = JNum 999, body = JObj [(''name'', JStr ''a'')]\<rparr> (start empty_db))) =
     [End 404]"
    using b by (simp add: mem_defs start_def)
  have 8: "sent (snd (index mem_store \<lparr>params_id = JNum 1, body = JNull\<rparr>
       (start \<lparr>rows = [], fault = Some (JNative ''SequelizeConnectionError'')\<rparr>))) =
     [Send 500 (JNative ''SequelizeConnectionError'')]"
    using c by (simp add: mem_defs start_def)
  from 1 2 3 4 5 6 7 8 show ?thesis by blast
qed

section \<open>The API client\<close>

lemma formatErrors_fails: "\<exists>payload. formatErrors e = Inl payload"
  by (simp add: formatErrors_def)

lemma call_outcome:
  "fst (catch_p (http_call svc r s) (\<lambda>e s'. (formatErrors e, s'))) =
     (case fst (http svc r (net s)) of Inl e \<Rightarrow> formatErrors e | Inr b \<Rightarrow> Inr b) \<and>
   requests (snd (catch_p (http_call svc r s) (\<lambda>e s'. (formatErrors e, s')))) = requests s @ [r] \<and>
   net (snd (catch_p (http_call svc r s) (\<lambda>e s'. (formatErrors e, s')))) = snd (http svc r (net s))"
  by (simp add: catch_p_def http_call_def split: sum.splits)

text \<open>
  C4: each of the four calls of the API client (get, put, post, delete) hands one request
  to the transport and returns its result: when the transport answers with a body the call
  resolves with that body, and when it fails the call fails with what \<open>formatErrors\<close>
  makes of the error, which for a structured error is its \<open>error\<close> member. There is no
  other outcome: nothing is sent twice and nothing is answered without a request.
\<close>

theorem api_call_resolves_or_fails_normalized:
  "(let r = HttpGet (apiUrl svc @ path) (defaulted params (JObj []));
        out = ApiService_get svc path params s
    in fst out = (case fst (http svc r (net s)) of
                    Inl e \<Rightarrow> formatErrors e | Inr b \<Rightarrow> Inr b) \<and>
       requests (snd out) = requests s @ [r]) \<and>
   (let r = HttpPut (apiUrl svc @ path) (JSON_stringify svc (defaulted b (JObj [])));
        out = ApiService_put svc path b s
    in fst out = (case fst (http svc r (net s)) of
                    Inl e \<Rightarrow> formatErrors e | Inr b \<Rightarrow> Inr b) \<and>
       requests (snd out) = requests s @ [r]) \<and>
   (let r = HttpPost (apiUrl svc @ path) (JSON_stringify svc (defaulted b (JObj [])));
        out = ApiService_post svc path b s
    in fst out = (case fst (http svc r (net s)) of
                    Inl e \<Rightarrow> formatErrors e | Inr b \<Rightarrow> Inr b) \<and>
       requests (snd out) = requests s @ [r]) \<and>
   (let r = HttpDelete (apiUrl svc @ path);
        out = ApiService_delete svc path s
    in fst out = (case fst (http svc r (net s)) of
                    Inl e \<Rightarrow> formatErrors e | Inr b \<Rightarrow> Inr b) \<and>
       requests (snd out) = requests s @ [r]) \<and>
   formatErrors (JObj kvs) = Inl (get_prop (JObj kvs) ''error'') \<and>
   (\<exists>payload. formatErrors e = Inl payload)"
  using call_outcome [of svc _ s] formatErrors_fails [of e]
  by (simp add: Let_def ApiService_get_def ApiService_put_def ApiService_post_def
      ApiService_delete_def formatErrors_def)

theorem api_call_resolves_or_fails_normalized_witness:
  "ApiService_get demo_service ''/api/items'' JUndefined \<lparr>net = 0, requests = []\<rparr> =
     (Inr (JArr []),
      \<lparr>net = 1, requests = [HttpGet ''http://localhost:3000/api/items'' (JObj [])]\<rparr>) \<and>
   ApiService_delete demo_service ''/api/items/1'' \<lparr>net = 0, requests = []\<rparr> =
     (Inl (JObj [(''message'', JStr ''boom'')]),
      \<lparr>net = 1, requests = [HttpDelete ''http://localhost:3000/api/items/1'']\<rparr>)"
  using api_call_resolves_or_fails_normalized
    [of demo_service "''/api/items''" JUndefined "\<lparr>net = 0, requests = []\<rparr>"]
  by (simp add: demo_service_def ApiService_get_def ApiService_delete_def http_call_def
      catch_p_def formatErrors_def defaulted_def)

section \<open>The controller on the store of the spec\<close>

lemma fields_of_delete_id: "fields_of (delete_prop b ''_id'') = fields_of b"
  by (cases b) simp_all

lemma mk_record_strip_id: "mk_record i (strip_id b) = mk_record i b"
  by (simp add: mk_record_def strip_id_def fields_of_delete_id)

lemma row_at_mk_record: "row_at i (mk_record i b)"
  by (simp add: row_at_def mk_record_def)

lemma truthy_mk_record: "truthy (mk_record i b)"
  by (simp add: mk_record_def)

lemma find_None_append: "find P xs = None \<Longrightarrow> find P (xs @ ys) = find P ys"
  by (induction xs) (auto split: if_splits)

lemma find_replaced:
  "find P xs \<noteq> None \<Longrightarrow> P r \<Longrightarrow> find P (map (\<lambda>x. if P x then r else x) xs) = Some r"
  by (induction xs) auto

lemma filter_replaced:
  "P r \<Longrightarrow> filter P (map (\<lambda>x. if P x then r else x) xs) = replicate (length (filter P xs)) r"
  by (induction xs) auto

lemma filter_not_replaced:
  "P r \<Longrightarrow> filter (\<lambda>x. \<not> P x) (map (\<lambda>x. if P x then r else x) xs) = filter (\<lambda>x. \<not> P x) xs"
  by (induction xs) auto

lemma id_num_le_max_id: "r \<in> set rs \<Longrightarrow> id_num (get_prop r ''_id'') \<le> max_id rs"
  by (induction rs) auto

lemma fresh_id_unused: "find (row_at (fresh_id rs)) rs = None"
proof -
  have "\<not> row_at (fresh_id rs) r" if "r \<in> set rs" for r
  proof
    assume "row_at (fresh_id rs) r"
    then have "id_num (get_prop r ''_id'') = max_id rs + 1"
      by (simp add: row_at_def fresh_id_def)
    with id_num_le_max_id [OF that] show False by simp
  qed
  then show ?thesis by (simp add: find_None_iff)
qed

text \<open>
  C6: an Upsert with the path \<open>id\<close> and a body of fields, on the store of the spec when it
  does not fail, answers 200 with the record at \<open>id\<close>, which is the identity of the path
  with the fields of the body. After it the store holds that record at \<open>id\<close>: appended
  when no record was there, in the place of the one that was there otherwise; the other
  records are untouched.
\<close>

theorem upsert_returns_record_at_id:
  assumes "fault (db s) = None" and "\<not> nullish (body req)"
  shows "\<exists>p s'. upsert mem_store req s = Inr (p, s') \<and>
     sent s' = sent s @ [Json 200 (mk_record (params_id req) (body req))] \<and>
     find (row_at (params_id req)) (rows (db s')) = Some (mk_record (params_id req) (body req)) \<and>
     (find (row_at (params_id req)) (rows (db s)) = None \<longrightarrow>
        rows (db s') = rows (db s) @ [mk_record (params_id req) (body req)]) \<and>
     (find (row_at (params_id req)) (rows (db s)) \<noteq> None \<longrightarrow>
        length (rows (db s')) = length (rows (db s)) \<and>
        filter (row_at (params_id req)) (rows (db s')) =
          replicate (length (filter (row_at (params_id req)) (rows (db s))))
            (mk_record (params_id req) (body req))) \<and>
     filter (\<lambda>x. \<not> row_at (params_id req) x) (rows (db s')) =
       filter (\<lambda>x. \<not> row_at (params_id req) x) (rows (db s))"
proof -
  let ?i = "params_id req"
  let ?r = "mk_record ?i (body req)"
  let ?rows' = "if find (row_at ?i) (rows (db s)) = None then rows (db s) @ [?r]
     else map (\<lambda>x. if row_at ?i x then ?r else x) (rows (db s))"
  have up: "Session_upsert mem_store (strip_id (body req)) ?i (db s) =
      (Inr ?r, (db s)\<lparr>rows := ?rows'\<rparr>)"
    using assms(1)
    by (simp add: mem_store_def mem_upsert_def failing_def mk_record_strip_id)
  have r: "row_at ?i ?r" by (rule row_at_mk_record)
  have "upsert mem_store req s =
      Inr (Inr res_object,
           \<lparr>db = (db s)\<lparr>rows := ?rows'\<rparr>,
            calls = calls s @ [CUpsert (strip_id (body req)) ?i],
            sent = sent s @ [Json 200 ?r]\<rparr>)"
    by (rule upsert_ok [OF assms(2) up truthy_mk_record])
  moreover have "find (row_at ?i) ?rows' = Some ?r"
    using r by (simp add: find_None_append find_replaced)
  moreover have "filter (\<lambda>x. \<not> row_at ?i x) ?rows' = filter (\<lambda>x. \<not> row_at ?i x) (rows (db s))"
    using r by (simp add: filter_not_replaced)
  moreover have "find (row_at ?i) (rows (db s)) \<noteq> None \<longrightarrow>
      filter (row_at ?i) ?rows' = replicate (length (filter (row_at ?i) (rows (db s)))) ?r"
    using r by (simp add: filter_replaced)
  ultimately show ?thesis by simp
qed

theorem upsert_returns_record_at_id_witness:
  "upsert mem_store \<lparr>params_id = JNum 1, body = JObj [(''_id'', JNum 5), (''name'', JStr ''b'')]\<rparr>
     (start \<lparr>rows = [JObj [(''_id'', JNum 1), (''name'', JStr ''a'')],
                     JObj [(''_id'', JNum 2), (''name'', JStr ''c'')]], fault = None\<rparr>) =
   Inr (Inr res_object,
        \<lparr>db = \<lparr>rows = [JObj [(''_id'', JNum 1), (''name'', JStr ''b'')],
                       JObj [(''_id'', JNum 2), (''name'', JStr ''c'')]], fault = None\<rparr>,
         calls = [CUpsert (JObj [(''name'', JStr ''b'')]) (JNum 1)],
         sent = [Json 200 (JObj [(''_id'', JNum 1), (''name'', JStr ''b'')])]\<rparr>) \<and>
   writes_on_res (upsert mem_store \<lparr>params_id = JNum 3, body = JObj [(''name'', JStr ''b'')]\<rparr>
     (start \<lparr>rows = [JObj [(''_id'', JNum 1), (''name'', JStr ''a'')]], fault = None\<rparr>)) =
   Inr [Json 200 (JObj [(''_id'', JNum 3), (''name'', JStr ''b'')])]"
  using upsert_returns_record_at_id
    [of "start \<lparr>rows = [JObj [(''_id'', JNum 1), (''name'', JStr ''a'')]], fault = None\<rparr>"
        "\<lparr>params_id = JNum 3, body = JObj [(''name'', JStr ''b'')]\<rparr>"]
  by (simp add: upsert_def strip_id_def chain_defs handler_defs run_defs mem_defs)

text \<open>
  C7: on the store of the spec when it does not fail, a Create answers 201 with the record
  it made, whose identity the store assigned, and a Show of that identity right after it
  answers 200 with the same record.
\<close>

theorem show_after_create:
  assumes "fault (db s) = None" and "params_id req' = fresh_id (rows (db s))"
  shows "sent (snd (create mem_store req s)) =
       sent s @ [Json 201 (mk_record (fresh_id (rows (db s))) (body req))] \<and>
     get_prop (mk_record (fresh_id (rows (db s))) (body req)) ''_id'' = fresh_id (rows (db s)) \<and>
     sent (snd (show_op mem_store req' (snd (create mem_store req s)))) =
       sent s @ [Json 201 (mk_record (fresh_id (rows (db s))) (body req)),
                 Json 200 (mk_record (fresh_id (rows (db s))) (body req))]"
proof -
  let ?i = "fresh_id (rows (db s))"
  let ?r = "mk_record ?i (body req)"
  let ?d = "(db s)\<lparr>rows := rows (db s) @ [?r]\<rparr>"
  let ?s1 = "\<lparr>db = ?d, calls = calls s @ [CCreate (body req)], sent = sent s @ [Json 201 ?r]\<rparr>"
  have "Session_create mem_store (body req) (db s) = (Inr ?r, ?d)"
    using assms(1) by (simp add: mem_store_def mem_create_def failing_def)
  then have c: "create mem_store req s = (Inr res_object, ?s1)"
    using truthy_mk_record by (rule create_ok)
  have "find (row_at ?i) (rows (db s) @ [?r]) = Some ?r"
    using row_at_mk_record [of ?i "body req"]
    by (simp add: find_None_append fresh_id_unused)
  then have "Session_find mem_store (params_id req') (db ?s1) = (Inr ?r, ?d)"
    using assms by (simp add: mem_store_def mem_find_def failing_def)
  from show_ok [OF this truthy_mk_record]
  have "sent (snd (show_op mem_store req' ?s1)) = sent s @ [Json 201 ?r, Json 200 ?r]"
    by simp
  moreover have "get_prop ?r ''_id'' = ?i"
    by (simp add: mk_record_def)
  ultimately show ?thesis using c by simp
qed

theorem show_after_create_witness:
  "sent (snd (show_op mem_store \<lparr>params_id = JNum 1, body = JUndefined\<rparr>
     (snd (create mem_store \<lparr>params_id = JUndefined, body = JObj [(''name'', JStr ''a'')]\<rparr>
        (start empty_db))))) =
   [Json 201 (JObj [(''_id'', JNum 1), (''name'', JStr ''a'')]),
    Json 200 (JObj [(''_id'', JNum 1), (''name'', JStr ''a'')])]"
  using show_after_create
    [of "start empty_db" "\<lparr>params_id = JNum 1, body = JUndefined\<rparr>"
        "\<lparr>params_id = JUndefined, body = JObj [(''name'', JStr ''a'')]\<rparr>"]
  by (simp add: mem_defs start_def)

end
